theory Spec2Isabelle
  imports Complex_Main
begin

section \<open>Common data\<close>

text \<open>
  The toolkit is Python 2 code driving a host scene graph. Numeric attributes of the host
  are modelled as reals, Python exceptions as values of \<open>py_error\<close>, scene nodes by
  their names.
\<close>

datatype py_error =
    IndexError
  | ZeroDivisionError
  | AttributeError
  | Exception string

type_synonym vec3 = "real \<times> real \<times> real"

definition vec_length :: "vec3 \<Rightarrow> real" where
  "vec_length v = (case v of (x, y, z) \<Rightarrow> sqrt (x * x + y * y + z * z))"

definition vec_scale :: "real \<Rightarrow> vec3 \<Rightarrow> vec3" where
  "vec_scale k v = (case v of (x, y, z) \<Rightarrow> (x * k, y * k, z * k))"

definition vec_add :: "vec3 \<Rightarrow> vec3 \<Rightarrow> vec3" where
  "vec_add a b = (case a of (ax, ay, az) \<Rightarrow> case b of (bx, by, bz) \<Rightarrow> (ax + bx, ay + by, az + bz))"

definition vec_sub :: "vec3 \<Rightarrow> vec3 \<Rightarrow> vec3" where
  "vec_sub a b = (case a of (ax, ay, az) \<Rightarrow> case b of (bx, by, bz) \<Rightarrow> (ax - bx, ay - by, az - bz))"

definition vec_mul :: "vec3 \<Rightarrow> vec3 \<Rightarrow> vec3" where
  "vec_mul a b = (case a of (ax, ay, az) \<Rightarrow> case b of (bx, by, bz) \<Rightarrow> (ax * bx, ay * by, az * bz))"

section \<open>Host utility nodes\<close>

text \<open>
  The value computed by the host's utility nodes, as the code configures them through
  \<open>CreateUtilityNode\<close> / \<open>create_utility_node\<close>. The \<open>operation\<close> argument is the
  host's enumeration: for \<open>condition\<close>, 0 is equal, 1 not equal, 2 greater than,
  3 greater or equal, 4 less than, 5 less or equal; for \<open>multiplyDivide\<close>, 1 (the default)
  is multiply, 2 divide, 3 power; for \<open>plusMinusAverage\<close>, 1 (the default) is sum and
  2 subtract. What the host makes of a division by zero is not modelled: the quotient is
  HOL's, and the properties below either guard the divisor as the code does or hold
  whatever the quotient is.
\<close>

definition condition :: "nat \<Rightarrow> real \<Rightarrow> real \<Rightarrow> 'a \<Rightarrow> 'a \<Rightarrow> 'a" where
  "condition operation firstTerm secondTerm colorIfTrue colorIfFalse =
     (if (if operation = 0 then firstTerm = secondTerm
          else if operation = 1 then firstTerm \<noteq> secondTerm
          else if operation = 2 then firstTerm > secondTerm
          else if operation = 3 then firstTerm \<ge> secondTerm
          else if operation = 4 then firstTerm < secondTerm
          else firstTerm \<le> secondTerm)
      then colorIfTrue else colorIfFalse)"

definition multiplyDivide :: "nat \<Rightarrow> real \<Rightarrow> real \<Rightarrow> real" where
  "multiplyDivide operation input1 input2 =
     (if operation = 2 then input1 / input2
      else if operation = 3 then input1 powr input2
      else input1 * input2)"

definition blendTwoAttr :: "real \<Rightarrow> real \<Rightarrow> real \<Rightarrow> real" where
  "blendTwoAttr input0 input1 attributesBlender =
     input0 * (1 - attributesBlender) + input1 * attributesBlender"

definition addDoubleLinear :: "real \<Rightarrow> real \<Rightarrow> real" where
  "addDoubleLinear input1 input2 = input1 + input2"

definition clamp_node :: "real \<Rightarrow> real \<Rightarrow> real \<Rightarrow> real" where
  "clamp_node minV maxV inputV =
     (if inputV < minV then minV else if inputV > maxV then maxV else inputV)"

section \<open>Legacy IK module (rigging/AutoRig/rigIK.py)\<close>

text \<open>
  \<open>IK.Build\<close>, as far as the stretch is concerned. \<open>aInput_t\<close> holds the local
  translation \<open>oInput.t.get()\<close> of every input joint, \<open>attChainDistance\<close> is the value of
  the \<open>distanceBetween\<close> node (chain root to IK control) at evaluation time. The result is
  the translation driven into each joint of \<open>aInput[1:iCtrlIndex + 1]\<close>.
\<close>

definition legacy_chain_slice :: "vec3 list \<Rightarrow> nat \<Rightarrow> vec3 list" where
  "legacy_chain_slice aInput_t iCtrlIndex = take iCtrlIndex (drop 1 aInput_t)"

definition legacy_fChainLength :: "vec3 list \<Rightarrow> nat \<Rightarrow> real" where
  "legacy_fChainLength aInput_t iCtrlIndex =
     foldl (\<lambda>acc t. acc + vec_length t) 0 (legacy_chain_slice aInput_t iCtrlIndex)"

definition legacy_attStretch :: "real \<Rightarrow> real \<Rightarrow> real" where
  "legacy_attStretch attChainDistance fChainLength =
     (let attStretch = multiplyDivide 2 attChainDistance fChainLength
      in condition 2 attStretch 1.0 attStretch 1.0)"

definition legacy_IK_Build :: "bool \<Rightarrow> vec3 list \<Rightarrow> nat \<Rightarrow> real \<Rightarrow> py_error + vec3 list" where
  "legacy_IK_Build bStretch aInput_t iCtrlIndex attChainDistance =
     (if length aInput_t \<le> iCtrlIndex then Inl IndexError
      else
        let fChainLength = legacy_fChainLength aInput_t iCtrlIndex in
        if length aInput_t \<le> 1 then Inl IndexError
        else if fChainLength = 0 then Inl ZeroDivisionError
        else if bStretch then
          Inr (map (vec_scale (legacy_attStretch attChainDistance fChainLength))
                 (legacy_chain_slice aInput_t iCtrlIndex))
        else Inr (legacy_chain_slice aInput_t iCtrlIndex))"

section \<open>Current IK module: SoftIkNode (omtk/rigging/autorig/rigIK.py)\<close>

text \<open>
  \<open>SoftIkNode.build\<close> compiles a network from formula strings and utility nodes; each
  definition below is the value of the formula attribute of the same name, as a function
  of the node's inputs. The formula compiler (libs/libFormula) is not part of the excerpt:
  its operators are read as the strings and the code's comments give them, \<open>~\<close> the
  distance between the positions of two matrices, \<open>^\<close> the power and \<open>e\<close> Euler's
  number. A matrix input is represented by its position.
\<close>

definition softik_inDistance :: "vec3 \<Rightarrow> vec3 \<Rightarrow> real" where
  "softik_inDistance inMatrixS inMatrixE = vec_length (vec_sub inMatrixS inMatrixE)"

definition softik_distanceSoft :: "real \<Rightarrow> real \<Rightarrow> real" where
  "softik_distanceSoft inChainLength inRatio = inChainLength * inRatio"

definition softik_distanceSafe :: "real \<Rightarrow> real \<Rightarrow> real" where
  "softik_distanceSafe inChainLength inRatio =
     inChainLength - softik_distanceSoft inChainLength inRatio"

definition softik_deltaSafeSoft :: "real \<Rightarrow> real \<Rightarrow> real \<Rightarrow> real" where
  "softik_deltaSafeSoft inDistance inChainLength inRatio =
     (let distanceSoft = softik_distanceSoft inChainLength inRatio;
          distanceSafe = softik_distanceSafe inChainLength inRatio;
          deltaSafeSoft = (inDistance - distanceSafe) / distanceSoft
      in condition 0 distanceSoft 0.0 0.0 deltaSafeSoft)"

definition softik_outDistanceSoft :: "real \<Rightarrow> real \<Rightarrow> real \<Rightarrow> real" where
  "softik_outDistanceSoft inDistance inChainLength inRatio =
     (let distanceSoft = softik_distanceSoft inChainLength inRatio;
          distanceSafe = softik_distanceSafe inChainLength inRatio;
          deltaSafeSoft = softik_deltaSafeSoft inDistance inChainLength inRatio
      in (distanceSoft * (1 - (exp 1 powr (deltaSafeSoft * -1)))) + distanceSafe)"

definition softik_outDistance :: "real \<Rightarrow> real \<Rightarrow> real \<Rightarrow> real \<Rightarrow> real" where
  "softik_outDistance inDistance inChainLength inRatio inStretch =
     (let outDistance =
            condition 2 (softik_deltaSafeSoft inDistance inChainLength inRatio) 0.0
              (softik_outDistanceSoft inDistance inChainLength inRatio) inDistance
      in blendTwoAttr outDistance inDistance inStretch)"

definition softik_outStretch :: "real \<Rightarrow> real \<Rightarrow> real \<Rightarrow> real \<Rightarrow> real" where
  "softik_outStretch inDistance inChainLength inRatio inStretch =
     (let outStretch = inDistance / softik_outDistanceSoft inDistance inChainLength inRatio;
          outStretchSafe =
            condition 2 inDistance (softik_distanceSafe inChainLength inRatio) outStretch 1.0
      in blendTwoAttr 1.0 outStretchSafe inStretch)"

definition softik_outRatio :: "real \<Rightarrow> real \<Rightarrow> real \<Rightarrow> real \<Rightarrow> real" where
  "softik_outRatio inDistance inChainLength inRatio inStretch =
     softik_outDistance inDistance inChainLength inRatio inStretch / inDistance"

text \<open>The two outputs of the node, \<open>outRatio\<close> and \<open>outStretch\<close>, from its inputs.\<close>

record softik_inputs =
  inMatrixS :: vec3
  inMatrixE :: vec3
  inRatio :: real
  inScale :: real
  inStretch :: real
  inChainLength :: real

definition SoftIkNode_outputs :: "softik_inputs \<Rightarrow> real \<times> real" where
  "SoftIkNode_outputs i =
     (let inDistance = softik_inDistance (inMatrixS i) (inMatrixE i)
      in (softik_outRatio inDistance (inChainLength i) (inRatio i) (inStretch i),
          softik_outStretch inDistance (inChainLength i) (inRatio i) (inStretch i)))"

section \<open>Shape library (omtk/libs/libCtrlShapes.py)\<close>

text \<open>
  A degree-1 curve is the list of its points. \<open>create_shape_needle\<close> builds three curves
  (\<open>shape1\<close> the shaft, \<open>shape2\<close> and \<open>shape3\<close> the two rings of the head), merges them
  under \<open>shape1\<close>, then rotates \<open>shape1\<close> by a multiple of 90 degrees chosen from
  \<open>normal\<close> and freezes the rotation into the points (\<open>makeIdentity\<close>). The rotation is
  applied here to the points directly.
\<close>

record needle =
  shape1 :: "vec3 list"
  shape2 :: "vec3 list"
  shape3 :: "vec3 list"

datatype rotation = NoRotation | RotateZ int | RotateX int

fun apply_rotation :: "rotation \<Rightarrow> vec3 \<Rightarrow> vec3" where
  "apply_rotation NoRotation p = p"
| "apply_rotation (RotateZ d) (x, y, z) =
     (if d = 90 then (- y, x, z) else if d = -90 then (y, - x, z) else (x, y, z))"
| "apply_rotation (RotateX d) (x, y, z) =
     (if d = 90 then (x, - z, y) else if d = -90 then (x, z, - y)
      else if d = 180 then (x, - y, - z) else (x, y, z))"

definition needle_rotation :: "vec3 \<Rightarrow> rotation" where
  "needle_rotation normal =
     (case normal of (normal_x, normal_y, normal_z) \<Rightarrow>
        if normal_x \<noteq> 0 then (if normal_x < 0 then RotateZ 90 else RotateZ (-90))
        else if normal_y \<noteq> 0 then (if normal_y < 0 then RotateX 180 else NoRotation)
        else if normal_z \<noteq> 0 then (if normal_z < 0 then RotateX (-90) else RotateX 90)
        else NoRotation)"

definition create_shape_needle :: "real \<Rightarrow> real option \<Rightarrow> real option \<Rightarrow> vec3 \<Rightarrow> needle" where
  "create_shape_needle size_v length_arg radius_arg normal =
     (let length_v = (case length_arg of None \<Rightarrow> size_v * 4.0 | Some l \<Rightarrow> l);
          radius = (case radius_arg of None \<Rightarrow> size_v * 0.25 | Some r \<Rightarrow> r);
          radius_mid = radius * 0.75;
          y_circle_mid_max = length_v + radius_mid;
          y_circle_mid_min = length_v - radius_mid;
          y_circle_min = length_v - radius;
          y_circle_max = length_v + radius;
          xz_circle_rad = radius;
          xz_circle_mid_rad = xz_circle_rad * 0.75;
          rot = apply_rotation (needle_rotation normal)
      in \<lparr> shape1 = map rot
             [(0.0, 0.0, 0.0),
              (0.0, y_circle_min, 0.0)],
           shape2 = map rot
             [(0.0, y_circle_max, - 0.0),
              (0.0, y_circle_max, 0.0),
              (xz_circle_mid_rad, y_circle_mid_max, 0.0),
              (xz_circle_rad, length_v, 0.0),
              (xz_circle_mid_rad, y_circle_mid_min, 0.0),
              (0.0, y_circle_min, 0),
              (- xz_circle_mid_rad, y_circle_mid_min, - 0.0),
              (- xz_circle_rad, length_v, 0.0),
              (- xz_circle_mid_rad, y_circle_mid_max, 0.0),
              (0.0, y_circle_max, 0.0),
              (xz_circle_mid_rad, y_circle_mid_max, 0.0)],
           shape3 = map rot
             [(- xz_circle_mid_rad, length_v, - xz_circle_mid_rad),
              (- xz_circle_rad, length_v, 0.0),
              (- xz_circle_mid_rad, length_v, xz_circle_mid_rad),
              (0.0, length_v, xz_circle_rad),
              (xz_circle_mid_rad, length_v, xz_circle_mid_rad),
              (xz_circle_rad, length_v, 0.0),
              (xz_circle_mid_rad, length_v, - xz_circle_mid_rad),
              (0.0, length_v, - xz_circle_rad),
              (- xz_circle_mid_rad, length_v, - xz_circle_mid_rad),
              (- xz_circle_rad, length_v, 0.0),
              (- xz_circle_rad, length_v, 0.0)] \<rparr>)"

definition create_shape_cross :: "real \<Rightarrow> vec3 list" where
  "create_shape_cross size_v =
     (let s1 = size_v * 0.5;
          s2 = size_v
      in [(0, - s1, s1),
          (0, - s1, s2),
          (0, s1, s2),
          (0, s1, s1),
          (0, s2, s1),
          (0, s2, - s1),
          (0, s1, - s1),
          (0, s1, - s2),
          (0, - s1, - s2),
          (0, - s1, - s1),
          (0, - s2, - s1),
          (0, - s2, s1),
          (0, - s1, s1)])"

text \<open>The length of a degree-1 curve: the sum of the lengths of its segments.\<close>

fun curve_length :: "vec3 list \<Rightarrow> real" where
  "curve_length (p # q # ps) = vec_length (vec_sub q p) + curve_length (q # ps)"
| "curve_length ps = 0"

section \<open>Facial avars (omtk/modules/rigFaceAvar.py)\<close>

subsection \<open>The dag stack\<close>

text \<open>
  Modelled from the spec: \<open>classNode.Node\<close> and its \<open>append_layer\<close> are not part of the
  excerpt. The dag stack is an ordered, append-only sequence of named layers chained
  parent to child, so a stack is the list of its layer names in creation order, with the
  connections made into its layers (source attribute, layer, layer attribute).
\<close>

record dag_stack =
  layers :: "string list"
  connections :: "(string \<times> string \<times> string) list"

definition empty_stack :: dag_stack where
  "empty_stack = \<lparr> layers = [], connections = [] \<rparr>"

definition append_layer :: "string \<Rightarrow> dag_stack \<Rightarrow> dag_stack" where
  "append_layer layer_name stack = stack\<lparr> layers := layers stack @ [layer_name] \<rparr>"

definition connectAttr :: "string \<Rightarrow> string \<Rightarrow> string \<Rightarrow> dag_stack \<Rightarrow> dag_stack" where
  "connectAttr src layer dst stack =
     stack\<lparr> connections := connections stack @ [(src, layer, dst)] \<rparr>"

text \<open>
  \<open>AvarSimple.build_stack\<close> and its override \<open>AvarFollicle.build_stack\<close>, which does not
  call the method it overrides. Of the follicle version, the calls that touch the stack
  are kept in their order; it first reads \<open>self.surface.getShape()\<close>, which raises when no
  surface is set.
\<close>

definition AvarSimple_build_stack :: "dag_stack \<Rightarrow> py_error + dag_stack" where
  "AvarSimple_build_stack stack =
     Inr ((connectAttr ''avar_rl'' ''pos'' ''rz''
         \<circ> connectAttr ''avar_pt'' ''pos'' ''rx''
         \<circ> connectAttr ''avar_yw'' ''pos'' ''ry''
         \<circ> connectAttr ''avar_fb'' ''pos'' ''tz''
         \<circ> connectAttr ''avar_ud'' ''pos'' ''ty''
         \<circ> connectAttr ''avar_lr'' ''pos'' ''tx''
         \<circ> append_layer ''pos'') stack)"

definition AvarFollicle_build_stack :: "string option \<Rightarrow> dag_stack \<Rightarrow> py_error + dag_stack" where
  "AvarFollicle_build_stack surface stack =
     (case surface of
        None \<Rightarrow> Inl AttributeError
      | Some _ \<Rightarrow>
        Inr ((connectAttr ''avar_scale_fb'' ''rotLayer'' ''scaleZ''
            \<circ> connectAttr ''avar_scale_ud'' ''rotLayer'' ''scaleY''
            \<circ> connectAttr ''avar_scale_lr'' ''rotLayer'' ''scaleX''
            \<circ> connectAttr ''avar_rl'' ''rotLayer'' ''rotateZ''
            \<circ> connectAttr ''avar_pt'' ''rotLayer'' ''rotateX''
            \<circ> connectAttr ''avar_yw'' ''rotLayer'' ''rotateY''
            \<circ> append_layer ''rotLayer''
            \<circ> connectAttr ''util_decomposeTM.outputRotate'' ''folRot'' ''rotate''
            \<circ> append_layer ''folRot''
            \<circ> connectAttr ''attr_get_fb_adjusted'' ''fbLayer'' ''translateZ''
            \<circ> append_layer ''fbLayer''
            \<circ> connectAttr ''oob_offset'' ''oobLayer'' ''t''
            \<circ> append_layer ''oobLayer''
            \<circ> connectAttr ''util_decomposeTM.outputTranslate'' ''follicleLayer'' ''translate''
            \<circ> append_layer ''follicleLayer'') stack))"

text \<open>
  \<open>AvarSimple.build\<close> creates a fresh stack and calls \<open>self.build_stack(stack)\<close>, which
  dispatches on the class of the avar.
\<close>

datatype avar_class = AvarSimple | AvarFollicle

definition build_stack :: "avar_class \<Rightarrow> string option \<Rightarrow> dag_stack \<Rightarrow> py_error + dag_stack" where
  "build_stack cls surface stack =
     (case cls of
        AvarSimple \<Rightarrow> AvarSimple_build_stack stack
      | AvarFollicle \<Rightarrow> AvarFollicle_build_stack surface stack)"

definition AvarSimple_build :: "avar_class \<Rightarrow> string option \<Rightarrow> py_error + dag_stack" where
  "AvarSimple_build cls surface = build_stack cls surface empty_stack"

subsection \<open>The out-of-bound layer of AvarFollicle\<close>

text \<open>
  The value of the out-of-bound network of \<open>AvarFollicle.build_stack\<close>, from the values
  of \<open>surfaceU\<close> and \<open>surfaceV\<close> (\<open>attr_u_inn\<close>, \<open>attr_v_inn\<close>). The host's follicle is a
  parameter: \<open>follicle u v\<close> is the translation of a follicle of the surface at parameters
  \<open>u\<close>, \<open>v\<close>. The result holds \<open>oob_u_condition_out\<close>, \<open>oob_v_condition_out\<close> and their
  sum \<open>oob_offset\<close>, which drives the translation of \<open>oobLayer\<close>.
\<close>

definition oob_step_size :: real where
  "oob_step_size = 0.001"

definition plusMinusAverage1D :: "nat \<Rightarrow> real \<Rightarrow> real \<Rightarrow> real" where
  "plusMinusAverage1D operation a b =
     (if operation = 2 then a - b else if operation = 3 then (a + b) / 2 else a + b)"

definition plusMinusAverage3D :: "nat \<Rightarrow> vec3 \<Rightarrow> vec3 \<Rightarrow> vec3" where
  "plusMinusAverage3D operation a b =
     (if operation = 2 then vec_sub a b
      else if operation = 3 then vec_scale (1 / 2) (vec_add a b)
      else vec_add a b)"

record oob_values =
  oob_u_condition_out :: vec3
  oob_v_condition_out :: vec3
  oob_offset :: vec3

definition AvarFollicle_oob :: "(real \<Rightarrow> real \<Rightarrow> vec3) \<Rightarrow> real \<Rightarrow> real \<Rightarrow> oob_values" where
  "AvarFollicle_oob follicle attr_u_inn attr_v_inn =
     (let clamped_u = clamp_node oob_step_size (1.0 - oob_step_size) attr_u_inn;
          clamped_v = clamp_node oob_step_size (1.0 - oob_step_size) attr_v_inn;
          fol_influence = follicle attr_u_inn attr_v_inn;
          fol_clamped_v = follicle attr_u_inn clamped_v;
          fol_clamped_u = follicle clamped_u attr_v_inn;
          dir_oob_u = plusMinusAverage3D 2 fol_influence fol_clamped_u;
          dir_oob_v = plusMinusAverage3D 2 fol_influence fol_clamped_v;
          condition_oob_u_neg = condition 4 attr_u_inn 0.0 (1.0 :: real) 0.0;
          condition_oob_u_pos = condition 2 attr_u_inn 1.0 (1.0 :: real) 0.0;
          condition_oob_v_neg = condition 4 attr_v_inn 0.0 (1.0 :: real) 0.0;
          condition_oob_v_pos = condition 2 attr_v_inn 1.0 (1.0 :: real) 0.0;
          oob_val_u_pos = plusMinusAverage1D 2 attr_u_inn 1.0;
          oob_val_u_neg = multiplyDivide 1 attr_u_inn (- 1.0);
          oob_val_v_pos = plusMinusAverage1D 2 attr_v_inn 1.0;
          oob_val_v_neg = multiplyDivide 1 attr_v_inn (- 1.0);
          oob_val_u = condition 0 condition_oob_u_pos 1.0 oob_val_u_pos oob_val_u_neg;
          oob_val_v = condition 0 condition_oob_v_pos 1.0 oob_val_v_pos oob_val_v_neg;
          oob_amount_u = multiplyDivide 2 oob_val_u oob_step_size;
          oob_amount_v = multiplyDivide 2 oob_val_v oob_step_size;
          oob_offset_u = vec_mul (oob_amount_u, oob_amount_u, oob_amount_u) dir_oob_u;
          oob_offset_v = vec_mul (oob_amount_v, oob_amount_v, oob_amount_v) dir_oob_v;
          oob_u_condition_added = addDoubleLinear condition_oob_u_neg condition_oob_u_pos;
          u_out = condition 0 oob_u_condition_added 1.0 oob_offset_u (0, 0, 0);
          oob_v_condition_added = addDoubleLinear condition_oob_v_neg condition_oob_v_pos;
          v_out = condition 0 oob_v_condition_added 1.0 oob_offset_v (0, 0, 0)
      in \<lparr> oob_u_condition_out = u_out,
           oob_v_condition_out = v_out,
           oob_offset = plusMinusAverage3D 1 u_out v_out \<rparr>)"

text \<open>
  An example follicle: a flat unit patch in the plane \<open>z = 0\<close>, on which a follicle with
  a parameter outside the unit interval stays at the border.
\<close>

definition flat_follicle :: "real \<Rightarrow> real \<Rightarrow> vec3" where
  "flat_follicle u v = (clamp_node 0 1 u, clamp_node 0 1 v, 0)"

subsection \<open>Holding the avars across an unbuild\<close>

text \<open>
  The part of the host scene that \<open>hold_avars\<close> touches: the live nodes, the user-defined
  attributes (node and attribute name) in creation order, and the connections between
  attributes (source, destination).
\<close>

type_synonym plug = "string \<times> string"

record avar_scene =
  nodes :: "string list"
  attrs :: "plug list"
  conns :: "(plug \<times> plug) list"

text \<open>
  The fields of an avar module that \<open>hold_avars\<close>, \<open>init_avars\<close> and \<open>unbuild\<close> read or
  write, with the messages given to the module's \<open>warning\<close> and \<open>debug\<close> loggers and the
  scene. \<open>module_str\<close> is the text of \<open>str(self)\<close>.
\<close>

record avar =
  module_str :: string
  grp_rig :: "string option"
  avar_network :: "string option"
  attr_ud :: "plug option"
  attr_lr :: "plug option"
  attr_fb :: "plug option"
  attr_yw :: "plug option"
  attr_pt :: "plug option"
  attr_rl :: "plug option"
  attr_sx :: "plug option"
  attr_sy :: "plug option"
  attr_sz :: "plug option"
  warnings :: "string list"
  debugs :: "string list"
  scene :: avar_scene

definition init_avars :: "avar \<Rightarrow> avar" where
  "init_avars a =
     a\<lparr> attr_ud := None, attr_lr := None, attr_fb := None,
        attr_yw := None, attr_pt := None, attr_rl := None,
        attr_sx := None, attr_sy := None, attr_sz := None \<rparr>"

definition addAttr :: "string \<Rightarrow> string \<Rightarrow> avar_scene \<Rightarrow> avar_scene" where
  "addAttr holder longName sc = sc\<lparr> attrs := attrs sc @ [(holder, longName)] \<rparr>"

definition add_avars :: "string \<Rightarrow> avar \<Rightarrow> avar" where
  "add_avars attr_holder a =
     a\<lparr> attr_ud := Some (attr_holder, ''avar_ud''),
        attr_lr := Some (attr_holder, ''avar_lr''),
        attr_fb := Some (attr_holder, ''avar_fb''),
        attr_yw := Some (attr_holder, ''avar_yw''),
        attr_pt := Some (attr_holder, ''avar_pt''),
        attr_rl := Some (attr_holder, ''avar_rl''),
        attr_sx := Some (attr_holder, ''avar_scale_lr''),
        attr_sy := Some (attr_holder, ''avar_scale_ud''),
        attr_sz := Some (attr_holder, ''avar_scale_fb''),
        scene := (addAttr attr_holder ''avar_scale_fb''
                \<circ> addAttr attr_holder ''avar_scale_ud''
                \<circ> addAttr attr_holder ''avar_scale_lr''
                \<circ> addAttr attr_holder ''avar_rl''
                \<circ> addAttr attr_holder ''avar_pt''
                \<circ> addAttr attr_holder ''avar_yw''
                \<circ> addAttr attr_holder ''avar_fb''
                \<circ> addAttr attr_holder ''avar_lr''
                \<circ> addAttr attr_holder ''avar_ud''
                \<circ> addAttr attr_holder ''avars'') (scene a) \<rparr>"

text \<open>
  The loop body of \<open>hold_avars\<close> for one attribute name. \<open>anim\<close> stands for the nested
  \<open>attr_have_animcurve_input\<close>, which follows the host's node types; when it holds, the
  first input of the source attribute is moved to the backup attribute, and the host
  raises if there is none. Then every output of the source is moved.
\<close>

fun move_outputs :: "plug \<Rightarrow> plug \<Rightarrow> plug list \<Rightarrow> (plug \<times> plug) list \<Rightarrow> (plug \<times> plug) list" where
  "move_outputs attr_src attr_dst [] cs = cs"
| "move_outputs attr_src attr_dst (attr_src_out # outs) cs =
     move_outputs attr_src attr_dst outs (remove1 (attr_src, attr_src_out) cs @ [(attr_dst, attr_src_out)])"

definition hold_attr :: "(avar_scene \<Rightarrow> plug \<Rightarrow> bool) \<Rightarrow> string \<Rightarrow> string \<Rightarrow> string \<Rightarrow> avar
    \<Rightarrow> py_error + avar" where
  "hold_attr anim grp net attr_name a =
     (if (grp, attr_name) \<notin> set (attrs (scene a)) then
        Inr (a\<lparr> debugs := debugs a @
               [''Cannot hold missing attribute '' @ attr_name @ '' in '' @ grp] \<rparr>)
      else
        let attr_src = (grp, attr_name);
            attr_dst = (net, attr_name);
            cs = conns (scene a);
            moved_in =
              (if anim (scene a) attr_src then
                 (case filter (\<lambda>c. snd c = attr_src) cs of
                    [] \<Rightarrow> Inl (Exception ''disconnectAttr'')
                  | c # _ \<Rightarrow> Inr (remove1 c cs @ [(fst c, attr_dst)]))
               else Inr cs)
        in case moved_in of
             Inl e \<Rightarrow> Inl e
           | Inr cs1 \<Rightarrow>
               Inr (a\<lparr> scene := (scene a)\<lparr> conns :=
                     move_outputs attr_src attr_dst
                       (map snd (filter (\<lambda>c. fst c = attr_src) cs1)) cs1 \<rparr> \<rparr>))"

fun hold_attrs :: "(avar_scene \<Rightarrow> plug \<Rightarrow> bool) \<Rightarrow> string \<Rightarrow> string \<Rightarrow> string list \<Rightarrow> avar
    \<Rightarrow> py_error + avar" where
  "hold_attrs anim grp net [] a = Inr a"
| "hold_attrs anim grp net (attr_name # rest) a =
     (case hold_attr anim grp net attr_name a of
        Inl e \<Rightarrow> Inl e
      | Inr a1 \<Rightarrow> hold_attrs anim grp net rest a1)"

text \<open>
  \<open>hold_avars\<close>. \<open>backup_name\<close> is the name the nomenclature resolves for
  \<open>avarBackup\<close>. The early return leaves everything but the warning log as it was.
  The registration of the backup node with the rig (\<open>rig.hold_node\<close>) changes nothing
  of this state and is left out.
\<close>

definition hold_avars :: "(avar_scene \<Rightarrow> plug \<Rightarrow> bool) \<Rightarrow> string \<Rightarrow> avar \<Rightarrow> py_error + avar" where
  "hold_avars anim backup_name a =
     (case grp_rig a of
        None \<Rightarrow>
          Inr (a\<lparr> warnings := warnings a @
                 [''Can't hold avars, invalid grp_rig in '' @ module_str a @ ''!''] \<rparr>)
      | Some grp \<Rightarrow>
          if grp \<notin> set (nodes (scene a)) then
            Inr (a\<lparr> warnings := warnings a @
                   [''Can't hold avars, invalid grp_rig in '' @ module_str a @ ''!''] \<rparr>)
          else
            let a1 = a\<lparr> avar_network := Some backup_name,
                        scene := (scene a)\<lparr> nodes := nodes (scene a) @ [backup_name] \<rparr> \<rparr>;
                a2 = add_avars backup_name a1;
                names = map snd (filter (\<lambda>p. fst p = backup_name) (attrs (scene a2)))
            in hold_attrs anim grp backup_name names a2)"

text \<open>
  Modelled from the spec: \<open>Module.unbuild\<close> is not part of the excerpt. It deletes the
  scene nodes the module owns and does not raise when a handle is already invalid; it is
  taken as a function \<open>Module_unbuild\<close> of the module's group handle and the scene, the
  state the base class knows about.
\<close>

definition AbstractAvar_unbuild ::
  "(string option \<Rightarrow> avar_scene \<Rightarrow> string option \<times> avar_scene)
    \<Rightarrow> (avar_scene \<Rightarrow> plug \<Rightarrow> bool) \<Rightarrow> string \<Rightarrow> avar \<Rightarrow> py_error + avar" where
  "AbstractAvar_unbuild Module_unbuild anim backup_name a =
     (case hold_avars anim backup_name a of
        Inl e \<Rightarrow> Inl e
      | Inr a1 \<Rightarrow>
          let a2 = init_avars a1;
              (g, sc) = Module_unbuild (grp_rig a2) (scene a2)
          in Inr (a2\<lparr> grp_rig := g, scene := sc \<rparr>))"

section \<open>Module registry (scripts/omtk/modules/__init__.py)\<close>

text \<open>
  \<open>create\<close>. The lookup \<open>libPython.get_class_def\<close> and the classes' constructors are not
  part of the excerpt and are parameters: \<open>get_class_def\<close> maps a name to a registered
  class or \<open>None\<close>, \<open>init cls args\<close> is the exception the constructor raises, if any.
  The state is the list of the instances constructed so far, each as its class and its
  arguments.
\<close>

definition create ::
  "(string \<Rightarrow> 'c option) \<Rightarrow> ('c \<Rightarrow> 'a \<Rightarrow> py_error option) \<Rightarrow> string \<Rightarrow> 'a \<Rightarrow> ('c \<times> 'a) list
    \<Rightarrow> (py_error + 'c) \<times> ('c \<times> 'a) list" where
  "create get_class_def init cls_name args instances =
     (case get_class_def cls_name of
        None \<Rightarrow> (Inl (Exception (''Can't find any module named '' @ cls_name)), instances)
      | Some cls \<Rightarrow>
          (case init cls args of
             Some e \<Rightarrow> (Inl e, instances)
           | None \<Rightarrow> (Inr cls, instances @ [(cls, args)])))"

section \<open>Spine module (omtk/rigDpSpine.py)\<close>

text \<open>Python's \<open>"{0}".format(n)\<close> for a natural number: its decimal digits.\<close>

definition digit_char :: "nat \<Rightarrow> char" where
  "digit_char d = ''0123456789'' ! d"

fun str_nat :: "nat \<Rightarrow> string" where
  "str_nat n = (if n < 10 then [digit_char n] else str_nat (n div 10) @ [digit_char (n mod 10)])"

declare str_nat.simps [simp del]

text \<open>
  \<open>DpSpine.build\<close>. The scene is the list of the names of the nodes created so far. After
  the guard comes the body: the base class's build, the five controls under the names the
  nomenclature resolves, and the ribbon with the squash set-up. \<open>Module_build\<close> and
  \<open>Ribbon_build\<close> (base class and ribbon module, not part of the excerpt) are parameters
  that return the exception they raise, if any, and the scene they leave.
\<close>

definition DpSpine_build_body ::
  "(string list \<Rightarrow> py_error option \<times> string list) \<Rightarrow> (string list \<Rightarrow> py_error option \<times> string list)
    \<Rightarrow> (string \<Rightarrow> string) \<Rightarrow> string list \<Rightarrow> py_error option \<times> string list" where
  "DpSpine_build_body Module_build Ribbon_build resolve sc =
     (case Module_build sc of
        (Some e, sc1) \<Rightarrow> (Some e, sc1)
      | (None, sc1) \<Rightarrow>
          Ribbon_build (sc1 @ [resolve ''HipsA'', resolve ''ChestA'', resolve ''HipsB'',
                               resolve ''ChestB'', resolve ''Middle1'']))"

definition DpSpine_build ::
  "(string list \<Rightarrow> py_error option \<times> string list) \<Rightarrow> (string list \<Rightarrow> py_error option \<times> string list)
    \<Rightarrow> (string \<Rightarrow> string) \<Rightarrow> string list \<Rightarrow> string list \<Rightarrow> py_error option \<times> string list" where
  "DpSpine_build Module_build Ribbon_build resolve chain sc =
     (if length chain \<noteq> 3 then
        (Some (Exception (''Expected 3 joints. Got '' @ str_nat (length chain) @ ''.'')), sc)
      else DpSpine_build_body Module_build Ribbon_build resolve sc)"

section \<open>Rig (omtk/classRig.py)\<close>

text \<open>
  A module as the rig sees it: its primary node handle and the two back-references
  \<open>root\<close> (set by \<open>add_module\<close>) and \<open>_parent\<close> (set by \<open>insert\<close>), which hold the identity
  of a rig. An entry of \<open>children\<close> can be \<open>None\<close>, as the code's comment on
  \<open>is_built\<close> notes.
\<close>

record module =
  module_node :: "string option"
  module_root :: "nat option"
  module_parent :: "nat option"

record nomenclature =
  root_jnt_name :: string
  root_anm_name :: string
  root_rig_name :: string
  root_geo_name :: string
  layer_anm_name :: string
  layer_rig_name :: string
  layer_geo_name :: string

record rig =
  rig_id :: nat
  name :: string
  children :: "module option list"
  grp_anms :: "string option"
  grp_geos :: "string option"
  grp_jnts :: "string option"
  grp_rigs :: "string option"
  layer_anm :: "string option"
  layer_geo :: "string option"
  layer_rig :: "string option"

text \<open>The rig's state of the world: the names of the live nodes and the host's warning log.\<close>

record world =
  live :: "string list"
  warning_log :: "string list"

text \<open>The list operations of Python that the sequence protocol forwards to.\<close>

definition list_getitem :: "'a list \<Rightarrow> int \<Rightarrow> py_error + 'a" where
  "list_getitem xs i =
     (let n = int (length xs);
          j = (if i < 0 then i + n else i)
      in if 0 \<le> j \<and> j < n then Inr (xs ! nat j) else Inl IndexError)"

definition list_insert :: "'a list \<Rightarrow> int \<Rightarrow> 'a \<Rightarrow> 'a list" where
  "list_insert xs i x =
     (let n = int (length xs);
          j = (if i < 0 then max 0 (i + n) else min i n)
      in take (nat j) xs @ [x] @ drop (nat j) xs)"

text \<open>
  \<open>Rig.__getitem__\<close> evaluates \<open>self.children.__getitem__(item)\<close> and has no
  \<open>return\<close>: it raises what the list raises, and otherwise returns \<open>None\<close>.
\<close>

definition Rig_getitem :: "rig \<Rightarrow> int \<Rightarrow> py_error + module option" where
  "Rig_getitem self item =
     (case list_getitem (children self) item of
        Inl e \<Rightarrow> Inl e
      | Inr _ \<Rightarrow> Inr None)"

definition Rig_len :: "rig \<Rightarrow> nat" where
  "Rig_len self = length (children self)"

text \<open>
  \<open>Rig.insert\<close>: the list is updated first, then the attribute \<open>_parent\<close> of the value is
  set, which raises on \<open>None\<close>.
\<close>

definition Rig_insert :: "rig \<Rightarrow> int \<Rightarrow> module option \<Rightarrow> py_error option \<times> rig" where
  "Rig_insert self index v =
     (case v of
        None \<Rightarrow> (Some AttributeError, self\<lparr> children := list_insert (children self) index None \<rparr>)
      | Some m \<Rightarrow>
          (None, self\<lparr> children :=
             list_insert (children self) index (Some (m\<lparr> module_parent := Some (rig_id self) \<rparr>)) \<rparr>))"

definition add_module :: "rig \<Rightarrow> module \<Rightarrow> rig" where
  "add_module self m =
     self\<lparr> children := children self @ [Some (m\<lparr> module_root := Some (rig_id self) \<rparr>)] \<rparr>"

text \<open>
  Modelled from the spec: \<open>Module.is_built\<close> is not part of the excerpt. A module is built
  iff its primary node handle resolves to a live node of the scene.
\<close>

definition Module_is_built :: "string list \<Rightarrow> module \<Rightarrow> bool" where
  "Module_is_built sc m = (case module_node m of None \<Rightarrow> False | Some n \<Rightarrow> n \<in> set sc)"

fun Rig_is_built :: "string list \<Rightarrow> module option list \<Rightarrow> py_error + bool" where
  "Rig_is_built sc [] = Inr False"
| "Rig_is_built sc (None # cs) = Inl AttributeError"
| "Rig_is_built sc (Some child # cs) =
     (if Module_is_built sc child then Inr True else Rig_is_built sc cs)"

definition Rig_str :: "rig \<Rightarrow> string" where
  "Rig_str self = ''<rig '' @ name self @ ''/>''"

text \<open>
  The build proper, entered when the rig is not built: the root joint is found or
  created, every child is built in order (\<open>Module_build\<close>, not part of the excerpt, is a
  parameter that returns the exception it raises, if any, the module and the live nodes),
  then the three root groups are created unless their handles are live, and the three
  display layers are created. Parenting, renaming, constraints and connections do not
  change which nodes are live and are left out.
\<close>

fun build_children ::
  "(module \<Rightarrow> string list \<Rightarrow> py_error option \<times> module \<times> string list) \<Rightarrow> module option list
    \<Rightarrow> string list \<Rightarrow> py_error option \<times> module option list \<times> string list" where
  "build_children Module_build [] sc = (None, [], sc)"
| "build_children Module_build (None # cs) sc = (Some AttributeError, None # cs, sc)"
| "build_children Module_build (Some child # cs) sc =
     (case Module_build child sc of
        (Some e, child1, sc1) \<Rightarrow> (Some e, Some child1 # cs, sc1)
      | (None, child1, sc1) \<Rightarrow>
          (case build_children Module_build cs sc1 of
             (r, cs1, sc2) \<Rightarrow> (r, Some child1 # cs1, sc2)))"

definition is_valid_PyNode :: "string list \<Rightarrow> string option \<Rightarrow> bool" where
  "is_valid_PyNode sc h = (case h of None \<Rightarrow> False | Some n \<Rightarrow> n \<in> set sc)"

definition build_group :: "string \<Rightarrow> string option \<Rightarrow> string list \<Rightarrow> string list" where
  "build_group group_name h sc = (if is_valid_PyNode sc h then sc else sc @ [group_name])"

definition Rig_build_body ::
  "nomenclature \<Rightarrow> (module \<Rightarrow> string list \<Rightarrow> py_error option \<times> module \<times> string list) \<Rightarrow> rig \<Rightarrow> world
    \<Rightarrow> (py_error + bool) \<times> rig \<times> world" where
  "Rig_build_body nom Module_build self w =
     (let sc0 = live w;
          sc1 = (if is_valid_PyNode sc0 (grp_jnts self) then sc0
                 else if root_jnt_name nom \<in> set sc0 then sc0
                 else sc0 @ [root_jnt_name nom]);
          self1 = (if is_valid_PyNode sc0 (grp_jnts self) then self
                   else self\<lparr> grp_jnts := Some (root_jnt_name nom) \<rparr>)
      in case build_children Module_build (children self1) sc1 of
           (Some e, cs, sc2) \<Rightarrow> (Inl e, self1\<lparr> children := cs \<rparr>, w\<lparr> live := sc2 \<rparr>)
         | (None, cs, sc2) \<Rightarrow>
             let sc3 = build_group (root_anm_name nom) (grp_anms self1) sc2;
                 sc4 = build_group (root_rig_name nom) (grp_rigs self1) sc3;
                 sc5 = build_group (root_geo_name nom) (grp_geos self1) sc4;
                 sc6 = sc5 @ [layer_anm_name nom, layer_rig_name nom, layer_geo_name nom]
             in (Inr True,
                 self1\<lparr> children := cs,
                        grp_anms := Some (root_anm_name nom),
                        grp_rigs := Some (root_rig_name nom),
                        grp_geos := Some (root_geo_name nom),
                        layer_anm := Some (layer_anm_name nom),
                        layer_rig := Some (layer_rig_name nom),
                        layer_geo := Some (layer_geo_name nom) \<rparr>,
                 w\<lparr> live := sc6 \<rparr>))"

definition Rig_build ::
  "nomenclature \<Rightarrow> (module \<Rightarrow> string list \<Rightarrow> py_error option \<times> module \<times> string list) \<Rightarrow> rig \<Rightarrow> world
    \<Rightarrow> (py_error + bool) \<times> rig \<times> world" where
  "Rig_build nom Module_build self w =
     (case Rig_is_built (live w) (children self) of
        Inl e \<Rightarrow> (Inl e, self, w)
      | Inr True \<Rightarrow>
          (Inr False, self,
           w\<lparr> warning_log := warning_log w @
                [''Can't build '' @ Rig_str self @ '' because it's already built!''] \<rparr>)
      | Inr False \<Rightarrow> Rig_build_body nom Module_build self w)"

section \<open>Example inputs\<close>

text \<open>A rig with two children, the first of them built, in a scene that holds its node.\<close>

definition example_nomenclature :: nomenclature where
  "example_nomenclature =
     \<lparr> root_jnt_name = ''jnts'', root_anm_name = ''anms'', root_rig_name = ''rigs'',
       root_geo_name = ''geos'', layer_anm_name = ''layer_anm'',
       layer_rig_name = ''layer_rig'', layer_geo_name = ''layer_geo'' \<rparr>"

definition example_arm :: module where
  "example_arm = \<lparr> module_node = Some ''arm_rig'', module_root = Some 1, module_parent = None \<rparr>"

definition example_leg :: module where
  "example_leg = \<lparr> module_node = None, module_root = Some 1, module_parent = None \<rparr>"

definition example_rig :: rig where
  "example_rig =
     \<lparr> rig_id = 1, name = ''untitled'', children = [Some example_arm, Some example_leg],
       grp_anms = None, grp_geos = None, grp_jnts = None, grp_rigs = None,
       layer_anm = None, layer_geo = None, layer_rig = None \<rparr>"

definition example_world :: world where
  "example_world = \<lparr> live = [''arm_jnt'', ''arm_rig''], warning_log = [] \<rparr>"

definition example_Module_build :: "module \<Rightarrow> string list \<Rightarrow> py_error option \<times> module \<times> string list" where
  "example_Module_build m sc = (None, m\<lparr> module_node := Some ''built'' \<rparr>, sc @ [''built''])"

text \<open>
  An avar whose rig group has been deleted from the scene, with its nine attribute handles
  still set and one connection into an avar.
\<close>

definition example_avar :: avar where
  "example_avar =
     \<lparr> module_str = ''<AvarFollicle lip>'',
       grp_rig = Some ''lip_rig'',
       avar_network = None,
       attr_ud = Some (''lip_rig'', ''avar_ud''),
       attr_lr = Some (''lip_rig'', ''avar_lr''),
       attr_fb = Some (''lip_rig'', ''avar_fb''),
       attr_yw = Some (''lip_rig'', ''avar_yw''),
       attr_pt = Some (''lip_rig'', ''avar_pt''),
       attr_rl = Some (''lip_rig'', ''avar_rl''),
       attr_sx = Some (''lip_rig'', ''avar_scale_lr''),
       attr_sy = Some (''lip_rig'', ''avar_scale_ud''),
       attr_sz = Some (''lip_rig'', ''avar_scale_fb''),
       warnings = [],
       debugs = [],
       scene = \<lparr> nodes = [''lip_jnt'', ''curve1''], attrs = [],
                 conns = [((''curve1'', ''output''), (''lip_rig'', ''avar_ud''))] \<rparr> \<rparr>"

definition example_Module_unbuild :: "string option \<Rightarrow> avar_scene \<Rightarrow> string option \<times> avar_scene" where
  "example_Module_unbuild g sc =
     (None, (case g of None \<Rightarrow> sc | Some n \<Rightarrow> sc\<lparr> nodes := removeAll n (nodes sc) \<rparr>))"

section \<open>Properties\<close>

subsection \<open>Legacy IK stretch\<close>

lemma vec_length_nonneg: "0 \<le> vec_length v"
  by (cases v) (simp add: vec_length_def)

lemma foldl_vec_length_ge: "acc \<le> foldl (\<lambda>acc t. acc + vec_length t) acc ts"
proof (induction ts arbitrary: acc)
  case Nil
  show ?case by simp
next
  case (Cons t ts)
  have "acc \<le> acc + vec_length t"
    using vec_length_nonneg [of t] by simp
  also have "\<dots> \<le> foldl (\<lambda>acc t. acc + vec_length t) (acc + vec_length t) ts"
    by (rule Cons.IH)
  finally show ?case by simp
qed

lemma legacy_fChainLength_nonneg: "0 \<le> legacy_fChainLength aInput_t iCtrlIndex"
  unfolding legacy_fChainLength_def by (rule foldl_vec_length_ge)

text \<open>
  C7. With \<open>bStretch\<close> true, a build that succeeds has a positive chain length \<open>L\<close>, and for
  every control distance \<open>D\<close> each chain joint's rest translation is scaled by
  \<open>max 1 (D / L)\<close>: the factor is never below 1, and it exceeds 1 exactly when \<open>D\<close> is
  past the full extension \<open>L\<close>.
\<close>

theorem legacy_stretch_clamp:
  assumes "legacy_IK_Build True aInput_t iCtrlIndex D = Inr ts"
  shows "0 < legacy_fChainLength aInput_t iCtrlIndex
    \<and> legacy_attStretch D (legacy_fChainLength aInput_t iCtrlIndex)
        = max 1 (D / legacy_fChainLength aInput_t iCtrlIndex)
    \<and> 1 \<le> legacy_attStretch D (legacy_fChainLength aInput_t iCtrlIndex)
    \<and> (1 < legacy_attStretch D (legacy_fChainLength aInput_t iCtrlIndex)
         \<longleftrightarrow> legacy_fChainLength aInput_t iCtrlIndex < D)
    \<and> ts = map (vec_scale (max 1 (D / legacy_fChainLength aInput_t iCtrlIndex)))
             (legacy_chain_slice aInput_t iCtrlIndex)"
proof -
  define L where "L = legacy_fChainLength aInput_t iCtrlIndex"
  have ne: "L \<noteq> 0"
    using assms unfolding legacy_IK_Build_def L_def
    by (auto simp: Let_def split: if_splits)
  with legacy_fChainLength_nonneg [of aInput_t iCtrlIndex] have pos: "0 < L"
    unfolding L_def by simp
  have eq: "legacy_attStretch D L = max 1 (D / L)"
    by (simp add: legacy_attStretch_def multiplyDivide_def condition_def Let_def max_def)
  have ge: "1 \<le> legacy_attStretch D L"
    unfolding eq by simp
  have gt: "1 < legacy_attStretch D L \<longleftrightarrow> L < D"
    unfolding eq using pos by (simp add: max_def field_simps)
  have out: "ts = map (vec_scale (max 1 (D / L))) (legacy_chain_slice aInput_t iCtrlIndex)"
    using assms eq unfolding legacy_IK_Build_def L_def
    by (auto simp: Let_def split: if_splits)
  from pos eq ge gt out show ?thesis
    unfolding L_def by blast
qed

theorem legacy_stretch_clamp_witness:
  "legacy_IK_Build True [(0, 0, 0), (3, 0, 0), (0, 4, 0)] 2 14 = Inr [(6, 0, 0), (0, 8, 0)]
   \<and> legacy_fChainLength [(0, 0, 0), (3, 0, 0), (0, 4, 0)] 2 = 7
   \<and> legacy_attStretch 14 7 = 2"
proof -
  have len: "legacy_fChainLength [(0, 0, 0), (3, 0, 0), (0, 4, 0)] 2 = 7"
    by (simp add: legacy_fChainLength_def legacy_chain_slice_def vec_length_def)
  have run: "legacy_IK_Build True [(0, 0, 0), (3, 0, 0), (0, 4, 0)] 2 14
               = Inr [(6, 0, 0), (0, 8, 0)]"
    by (simp add: legacy_IK_Build_def len legacy_chain_slice_def legacy_attStretch_def
        multiplyDivide_def condition_def vec_scale_def Let_def)
  from legacy_stretch_clamp [OF run] len have "legacy_attStretch 14 7 = 2"
    by simp
  with run len show ?thesis by simp
qed

subsection \<open>Soft IK formula\<close>

text \<open>Bounds on \<open>e\<close> to the power -1/2, from the Maclaurin expansion to six terms.\<close>

lemma exp_neg_half_bounds:
  "(60651 / 100000 :: real) < exp (- (1 / 2)) \<and> exp (- (1 / 2)) < (60656 / 100000 :: real)"
proof -
  obtain t :: real where t: "\<bar>t\<bar> \<le> \<bar>- (1 / 2)\<bar>"
    and e: "exp (- (1 / 2)) =
              (\<Sum>m<6. ((- (1 / 2)) ^ m) / fact m) + (exp t / fact 6) * (- (1 / 2)) ^ 6"
    using Maclaurin_exp_le [of "- (1 / 2)" 6] by blast
  have s: "(\<Sum>m<6. ((- (1 / 2 :: real)) ^ m) / fact m) = 2329 / 3840"
    by (simp add: lessThan_nat_numeral lessThan_Suc fact_numeral power_divide)
  have "t \<le> 1 / 2" using t by simp
  then have "exp t \<le> exp (1 / 2)" by simp
  also have "\<dots> \<le> 2" by (rule exp_half_le2)
  finally have up: "exp t \<le> 2" .
  have lo: "0 < exp t" by (rule exp_gt_zero)
  have r: "(exp t / fact 6) * (- (1 / 2)) ^ 6 = exp t / 46080"
    by (simp add: fact_numeral power_divide)
  from e s r have eq: "exp (- (1 / 2)) = 2329 / 3840 + exp t / 46080" by simp
  define u where "u = exp t"
  from eq up lo have "exp (- (1 / 2)) = 2329 / 3840 + u / 46080" "u \<le> 2" "0 < u"
    unfolding u_def by blast+
  then show ?thesis by linarith
qed

lemmas softik_defs =
  softik_outRatio_def softik_outDistance_def softik_outDistanceSoft_def
  softik_deltaSafeSoft_def softik_distanceSoft_def softik_distanceSafe_def
  condition_def blendTwoAttr_def Let_def

lemma softik_outDistanceSoft_at_9_5:
  "softik_outDistanceSoft (19 / 2) 10 (1 / 10) = 10 - exp (- (1 / 2))"
  by (simp add: softik_defs powr_def)

lemma softik_outRatio_at_9_5:
  "softik_outRatio (19 / 2) 10 (1 / 10) 0 = softik_outDistanceSoft (19 / 2) 10 (1 / 10) / (19 / 2)"
  by (simp add: softik_defs powr_def)

text \<open>
  C1. With \<open>D\<close> the distance between the two matrices, \<open>L = inChainLength\<close>,
  \<open>r = inRatio\<close>, \<open>softDist = L * r\<close> and \<open>safeDist = L - softDist\<close>: delta is
  \<open>(D - safeDist) / softDist\<close>, and exactly 0 when \<open>softDist = 0\<close>; the soft target
  distance is \<open>softDist * (1 - e ^ (- delta)) + safeDist\<close>; the effective distance is the
  soft target distance when \<open>delta > 0\<close> and \<open>D\<close> otherwise, blended toward \<open>D\<close> by
  \<open>inStretch\<close>; \<open>outRatio\<close> is the effective distance over \<open>D\<close>. For
  \<open>inChainLength = 10\<close>, \<open>inRatio = 0.1\<close>, \<open>inStretch = 0\<close>: \<open>outRatio\<close> is 1 at
  \<open>D = 9\<close>; at \<open>D = 9.5\<close> the soft target distance is within 0.0001 of 9.3935 and
  \<open>outRatio\<close> is that distance over 9.5, within 0.0001 of 0.9888; and \<open>outRatio\<close> is
  exactly 1 at \<open>D = 0.9\<close>, well inside the safe zone.
\<close>

theorem softik_formula:
  "softik_inDistance S E = vec_length (vec_sub S E)
   \<and> softik_deltaSafeSoft D L r = (if L * r = 0 then 0 else (D - (L - L * r)) / (L * r))
   \<and> softik_outDistanceSoft D L r
       = L * r * (1 - exp (- softik_deltaSafeSoft D L r)) + (L - L * r)
   \<and> softik_outDistance D L r s
       = (if softik_deltaSafeSoft D L r > 0 then softik_outDistanceSoft D L r else D) * (1 - s)
         + D * s
   \<and> softik_outRatio D L r s = softik_outDistance D L r s / D
   \<and> fst (SoftIkNode_outputs \<lparr>inMatrixS = S, inMatrixE = E, inRatio = r, inScale = k,
                                 inStretch = s, inChainLength = L\<rparr>)
       = softik_outRatio (softik_inDistance S E) L r s
   \<and> softik_outRatio 9 10 (1 / 10) 0 = 1
   \<and> \<bar>softik_outDistanceSoft (19 / 2) 10 (1 / 10) - 93935 / 10000\<bar> < 1 / 10000
   \<and> softik_outRatio (19 / 2) 10 (1 / 10) 0
       = softik_outDistanceSoft (19 / 2) 10 (1 / 10) / (19 / 2)
   \<and> \<bar>softik_outRatio (19 / 2) 10 (1 / 10) 0 - 9888 / 10000\<bar> < 1 / 10000
   \<and> softik_outRatio (9 / 10) 10 (1 / 10) 0 = 1"
proof -
  have c0: "softik_inDistance S E = vec_length (vec_sub S E)"
    by (simp add: softik_inDistance_def)
  have c1: "softik_deltaSafeSoft D L r = (if L * r = 0 then 0 else (D - (L - L * r)) / (L * r))"
    by (simp add: softik_defs)
  have c2: "softik_outDistanceSoft D L r
              = L * r * (1 - exp (- softik_deltaSafeSoft D L r)) + (L - L * r)"
    by (simp add: softik_outDistanceSoft_def softik_distanceSoft_def softik_distanceSafe_def
        Let_def powr_def)
  have c3: "softik_outDistance D L r s
              = (if softik_deltaSafeSoft D L r > 0 then softik_outDistanceSoft D L r else D)
                  * (1 - s) + D * s"
    by (simp add: softik_outDistance_def condition_def blendTwoAttr_def Let_def)
  have c4: "softik_outRatio D L r s = softik_outDistance D L r s / D"
    by (simp add: softik_outRatio_def)
  have c5: "fst (SoftIkNode_outputs \<lparr>inMatrixS = S, inMatrixE = E, inRatio = r, inScale = k,
                                      inStretch = s, inChainLength = L\<rparr>)
              = softik_outRatio (softik_inDistance S E) L r s"
    by (simp add: SoftIkNode_outputs_def Let_def)
  have c6: "softik_outRatio 9 10 (1 / 10) 0 = 1"
    by (simp add: softik_defs)
  have c7: "\<bar>softik_outDistanceSoft (19 / 2) 10 (1 / 10) - 93935 / 10000\<bar> < 1 / 10000"
    unfolding softik_outDistanceSoft_at_9_5 using exp_neg_half_bounds by linarith
  have c8: "\<bar>softik_outRatio (19 / 2) 10 (1 / 10) 0 - 9888 / 10000\<bar> < 1 / 10000"
    unfolding softik_outRatio_at_9_5 softik_outDistanceSoft_at_9_5
    using exp_neg_half_bounds by (simp add: field_simps)
  have c9: "softik_outRatio (9 / 10) 10 (1 / 10) 0 = 1"
    by (simp add: softik_defs)
  from c0 c1 c2 c3 c4 c5 c6 c7 softik_outRatio_at_9_5 c8 c9 show ?thesis
    by blast
qed

subsection \<open>Shape library\<close>

lemma vec_length_y_axis: "vec_length (0, y, 0) = \<bar>y\<bar>"
  by (simp add: vec_length_def)

lemma needle_shaft_points:
  "shape1 (create_shape_needle s None None (0, 1, 0)) = [(0, 0, 0), (0, 4 * s - s / 4, 0)]"
  by (simp add: create_shape_needle_def needle_rotation_def Let_def)

lemma needle_shaft_length:
  "curve_length (shape1 (create_shape_needle s None None (0, 1, 0))) = \<bar>15 / 4 * s\<bar>"
proof -
  have "curve_length [(0, 0, 0), (0, 4 * s - s / 4, 0)] = \<bar>4 * s - s / 4\<bar>"
    by (simp add: vec_sub_def vec_length_y_axis)
  then show ?thesis
    unfolding needle_shaft_points by (simp add: field_simps)
qed

text \<open>
  C8, the claim as written, fails: for \<open>size = 2\<close> the shaft curve ends at height 7.5, below
  the head's ring, so its length is 7.5 and not 8.
\<close>

theorem needle_shaft_counterexample:
  "curve_length (shape1 (create_shape_needle 2 None None (0, 1, 0))) = 15 / 2
   \<and> curve_length (shape1 (create_shape_needle 2 None None (0, 1, 0))) \<noteq> 4 * 2"
  unfolding needle_shaft_length by simp

text \<open>
  C8, amended. With the default length, radius and normal, \<open>create_shape_needle\<close> of size
  \<open>s\<close> resolves the length to \<open>4 * s\<close>, the height of the head's centre. The shaft curve
  runs from the origin to height \<open>4 * s - 0.25 * s\<close>, the lowest point of the head, so it
  is \<open>3.75 * s\<close> long in absolute value. The head is drawn with the radius \<open>0.25 * s\<close> and
  the mid-radius \<open>0.1875 * s\<close> around the height \<open>4 * s\<close>. \<open>create_shape_cross\<close> of size
  \<open>c\<close> is an outline of 13 points in the plane \<open>x = 0\<close> whose other coordinates are all
  among 0, \<open>0.5 * c\<close>, \<open>- 0.5 * c\<close>, \<open>c\<close> and \<open>- c\<close>.
\<close>

theorem shape_invariants:
  "shape1 (create_shape_needle s None None (0, 1, 0)) = [(0, 0, 0), (0, 4 * s - 0.25 * s, 0)]
   \<and> curve_length (shape1 (create_shape_needle s None None (0, 1, 0))) = \<bar>3.75 * s\<bar>
   \<and> shape2 (create_shape_needle s None None (0, 1, 0)) =
        [(0, 4 * s + 0.25 * s, 0),
         (0, 4 * s + 0.25 * s, 0),
         (0.1875 * s, 4 * s + 0.1875 * s, 0),
         (0.25 * s, 4 * s, 0),
         (0.1875 * s, 4 * s - 0.1875 * s, 0),
         (0, 4 * s - 0.25 * s, 0),
         (- (0.1875 * s), 4 * s - 0.1875 * s, 0),
         (- (0.25 * s), 4 * s, 0),
         (- (0.1875 * s), 4 * s + 0.1875 * s, 0),
         (0, 4 * s + 0.25 * s, 0),
         (0.1875 * s, 4 * s + 0.1875 * s, 0)]
   \<and> shape3 (create_shape_needle s None None (0, 1, 0)) =
        [(- (0.1875 * s), 4 * s, - (0.1875 * s)),
         (- (0.25 * s), 4 * s, 0),
         (- (0.1875 * s), 4 * s, 0.1875 * s),
         (0, 4 * s, 0.25 * s),
         (0.1875 * s, 4 * s, 0.1875 * s),
         (0.25 * s, 4 * s, 0),
         (0.1875 * s, 4 * s, - (0.1875 * s)),
         (0, 4 * s, - (0.25 * s)),
         (- (0.1875 * s), 4 * s, - (0.1875 * s)),
         (- (0.25 * s), 4 * s, 0),
         (- (0.25 * s), 4 * s, 0)]
   \<and> length (create_shape_cross c) = 13
   \<and> list_all (\<lambda>(x, y, z). x = 0
          \<and> y \<in> {0, 0.5 * c, - (0.5 * c), c, - c}
          \<and> z \<in> {0, 0.5 * c, - (0.5 * c), c, - c}) (create_shape_cross c)"
proof -
  have a: "shape1 (create_shape_needle s None None (0, 1, 0))
             = [(0, 0, 0), (0, 4 * s - 0.25 * s, 0)]"
    unfolding needle_shaft_points by simp
  have b: "curve_length (shape1 (create_shape_needle s None None (0, 1, 0))) = \<bar>3.75 * s\<bar>"
    unfolding needle_shaft_length by simp
  have c: "shape2 (create_shape_needle s None None (0, 1, 0)) =
        [(0, 4 * s + 0.25 * s, 0),
         (0, 4 * s + 0.25 * s, 0),
         (0.1875 * s, 4 * s + 0.1875 * s, 0),
         (0.25 * s, 4 * s, 0),
         (0.1875 * s, 4 * s - 0.1875 * s, 0),
         (0, 4 * s - 0.25 * s, 0),
         (- (0.1875 * s), 4 * s - 0.1875 * s, 0),
         (- (0.25 * s), 4 * s, 0),
         (- (0.1875 * s), 4 * s + 0.1875 * s, 0),
         (0, 4 * s + 0.25 * s, 0),
         (0.1875 * s, 4 * s + 0.1875 * s, 0)]"
    by (simp add: create_shape_needle_def needle_rotation_def Let_def)
  have d: "shape3 (create_shape_needle s None None (0, 1, 0)) =
        [(- (0.1875 * s), 4 * s, - (0.1875 * s)),
         (- (0.25 * s), 4 * s, 0),
         (- (0.1875 * s), 4 * s, 0.1875 * s),
         (0, 4 * s, 0.25 * s),
         (0.1875 * s, 4 * s, 0.1875 * s),
         (0.25 * s, 4 * s, 0),
         (0.1875 * s, 4 * s, - (0.1875 * s)),
         (0, 4 * s, - (0.25 * s)),
         (- (0.1875 * s), 4 * s, - (0.1875 * s)),
         (- (0.25 * s), 4 * s, 0),
         (- (0.25 * s), 4 * s, 0)]"
    by (simp add: create_shape_needle_def needle_rotation_def Let_def)
  have e: "length (create_shape_cross c) = 13"
    by (simp add: create_shape_cross_def Let_def)
  have f: "list_all (\<lambda>(x, y, z). x = 0
          \<and> y \<in> {0, 0.5 * c, - (0.5 * c), c, - c}
          \<and> z \<in> {0, 0.5 * c, - (0.5 * c), c, - c}) (create_shape_cross c)"
    by (simp add: create_shape_cross_def Let_def)
  from a b c d e f show ?thesis by blast
qed

subsection \<open>Dag stack of the avars\<close>

lemmas stack_defs =
  AvarSimple_build_def build_stack_def AvarSimple_build_stack_def AvarFollicle_build_stack_def
  empty_stack_def append_layer_def connectAttr_def

text \<open>
  C2, the claim as written, fails: the stack of an AvarFollicle has five layers, and no
  \<open>pos\<close> layer is created in front of them.
\<close>

theorem follicle_stack_counterexample:
  "map_sum id layers (AvarSimple_build AvarFollicle (Some ''Surface''))
     = Inr [''follicleLayer'', ''oobLayer'', ''fbLayer'', ''folRot'', ''rotLayer'']
   \<and> map_sum id layers (AvarSimple_build AvarFollicle (Some ''Surface''))
     \<noteq> Inr [''pos'', ''follicleLayer'', ''oobLayer'', ''fbLayer'', ''folRot'', ''rotLayer'']"
  by (simp add: stack_defs)

text \<open>
  C2, amended. For every AvarFollicle build that succeeds, the dag-stack layers are created
  in exactly the order follicleLayer, oobLayer, fbLayer, folRot, rotLayer, and there is no
  \<open>pos\<close> layer: the follicle version of \<open>build_stack\<close> replaces the one of AvarSimple and
  does not call it. The \<open>pos\<close> layer, driven by the six transform avars, is the whole stack
  of a plain AvarSimple.
\<close>

theorem follicle_stack_order:
  assumes "AvarSimple_build AvarFollicle surface = Inr st"
  shows "layers st = [''follicleLayer'', ''oobLayer'', ''fbLayer'', ''folRot'', ''rotLayer'']
    \<and> ''pos'' \<notin> set (layers st)
    \<and> AvarSimple_build AvarSimple surface =
        Inr \<lparr> layers = [''pos''],
              connections = [(''avar_lr'', ''pos'', ''tx''), (''avar_ud'', ''pos'', ''ty''),
                             (''avar_fb'', ''pos'', ''tz''), (''avar_yw'', ''pos'', ''ry''),
                             (''avar_pt'', ''pos'', ''rx''), (''avar_rl'', ''pos'', ''rz'')] \<rparr>"
proof -
  from assms have l: "layers st
      = [''follicleLayer'', ''oobLayer'', ''fbLayer'', ''folRot'', ''rotLayer'']"
    by (auto simp: stack_defs split: option.splits)
  have s: "AvarSimple_build AvarSimple surface =
        Inr \<lparr> layers = [''pos''],
              connections = [(''avar_lr'', ''pos'', ''tx''), (''avar_ud'', ''pos'', ''ty''),
                             (''avar_fb'', ''pos'', ''tz''), (''avar_yw'', ''pos'', ''ry''),
                             (''avar_pt'', ''pos'', ''rx''), (''avar_rl'', ''pos'', ''rz'')] \<rparr>"
    by (simp add: stack_defs)
  from l s show ?thesis by simp
qed

theorem follicle_stack_order_witness:
  "AvarSimple_build AvarFollicle (Some ''Surface'') =
     Inr \<lparr> layers = [''follicleLayer'', ''oobLayer'', ''fbLayer'', ''folRot'', ''rotLayer''],
           connections =
             [(''util_decomposeTM.outputTranslate'', ''follicleLayer'', ''translate''),
              (''oob_offset'', ''oobLayer'', ''t''),
              (''attr_get_fb_adjusted'', ''fbLayer'', ''translateZ''),
              (''util_decomposeTM.outputRotate'', ''folRot'', ''rotate''),
              (''avar_yw'', ''rotLayer'', ''rotateY''),
              (''avar_pt'', ''rotLayer'', ''rotateX''),
              (''avar_rl'', ''rotLayer'', ''rotateZ''),
              (''avar_scale_lr'', ''rotLayer'', ''scaleX''),
              (''avar_scale_ud'', ''rotLayer'', ''scaleY''),
              (''avar_scale_fb'', ''rotLayer'', ''scaleZ'')] \<rparr>
   \<and> ''pos'' \<notin> set [''follicleLayer'', ''oobLayer'', ''fbLayer'', ''folRot'', ''rotLayer'']"
proof -
  have run: "AvarSimple_build AvarFollicle (Some ''Surface'') =
     Inr \<lparr> layers = [''follicleLayer'', ''oobLayer'', ''fbLayer'', ''folRot'', ''rotLayer''],
           connections =
             [(''util_decomposeTM.outputTranslate'', ''follicleLayer'', ''translate''),
              (''oob_offset'', ''oobLayer'', ''t''),
              (''attr_get_fb_adjusted'', ''fbLayer'', ''translateZ''),
              (''util_decomposeTM.outputRotate'', ''folRot'', ''rotate''),
              (''avar_yw'', ''rotLayer'', ''rotateY''),
              (''avar_pt'', ''rotLayer'', ''rotateX''),
              (''avar_rl'', ''rotLayer'', ''rotateZ''),
              (''avar_scale_lr'', ''rotLayer'', ''scaleX''),
              (''avar_scale_ud'', ''rotLayer'', ''scaleY''),
              (''avar_scale_fb'', ''rotLayer'', ''scaleZ'')] \<rparr>"
    by (simp add: stack_defs)
  from follicle_stack_order [OF run] run show ?thesis by simp
qed

subsection \<open>Out-of-bound layer\<close>

lemma oob_u_gate:
  "oob_u_condition_out (AvarFollicle_oob f u v) =
     (if u < 0 \<or> 1 < u
      then vec_scale ((if 1 < u then u - 1 else - u) / oob_step_size)
             (vec_sub (f u v) (f (clamp_node oob_step_size (1 - oob_step_size) u) v))
      else (0, 0, 0))"
  by (cases "vec_sub (f u v) (f (clamp_node oob_step_size (1 - oob_step_size) u) v)")
     (simp add: AvarFollicle_oob_def Let_def condition_def addDoubleLinear_def
        multiplyDivide_def plusMinusAverage1D_def plusMinusAverage3D_def vec_mul_def
        vec_scale_def mult.commute)

lemma oob_v_gate:
  "oob_v_condition_out (AvarFollicle_oob f u v) =
     (if v < 0 \<or> 1 < v
      then vec_scale ((if 1 < v then v - 1 else - v) / oob_step_size)
             (vec_sub (f u v) (f u (clamp_node oob_step_size (1 - oob_step_size) v)))
      else (0, 0, 0))"
  by (cases "vec_sub (f u v) (f u (clamp_node oob_step_size (1 - oob_step_size) v))")
     (simp add: AvarFollicle_oob_def Let_def condition_def addDoubleLinear_def
        multiplyDivide_def plusMinusAverage1D_def plusMinusAverage3D_def vec_mul_def
        vec_scale_def mult.commute)

text \<open>
  C3, the claim as written, fails: on a flat patch, with U = 1.2 and V = -0.3 both out of
  bounds, both axes' offsets are applied, and neither is zero. Their sum carries the layer
  0.2 past the border in U and 0.3 past it in V.
\<close>

theorem oob_gating_counterexample:
  "oob_u_condition_out (AvarFollicle_oob flat_follicle (12 / 10) (- (3 / 10))) = (2 / 10, 0, 0)
   \<and> oob_v_condition_out (AvarFollicle_oob flat_follicle (12 / 10) (- (3 / 10)))
       = (0, - (3 / 10), 0)
   \<and> oob_offset (AvarFollicle_oob flat_follicle (12 / 10) (- (3 / 10))) = (2 / 10, - (3 / 10), 0)
   \<and> oob_u_condition_out (AvarFollicle_oob flat_follicle (12 / 10) (- (3 / 10))) \<noteq> (0, 0, 0)
   \<and> oob_v_condition_out (AvarFollicle_oob flat_follicle (12 / 10) (- (3 / 10))) \<noteq> (0, 0, 0)"
  by (simp add: oob_u_gate oob_v_gate flat_follicle_def clamp_node_def oob_step_size_def
      vec_sub_def vec_scale_def vec_add_def AvarFollicle_oob_def Let_def condition_def
      addDoubleLinear_def multiplyDivide_def plusMinusAverage1D_def plusMinusAverage3D_def
      vec_mul_def)

text \<open>
  C3, amended. Each axis's extrapolated offset is gated by that axis alone: the offset of
  U is applied exactly when U is below 0 or above 1, whatever V is, and likewise for V; the
  layer's offset is the sum of the two. For U = 1.2 and V = 0.5 the offset of V is zero and
  the offset of U is 200 times the vector from the follicle clamped in U to the influence
  follicle. For U = 1.2 and V = -0.3 both offsets are applied: 200 times that vector for U,
  300 times the corresponding vector for V.
\<close>

theorem oob_gating:
  "oob_u_condition_out (AvarFollicle_oob f u v) =
     (if u < 0 \<or> 1 < u
      then vec_scale ((if 1 < u then u - 1 else - u) / oob_step_size)
             (vec_sub (f u v) (f (clamp_node oob_step_size (1 - oob_step_size) u) v))
      else (0, 0, 0))
   \<and> oob_v_condition_out (AvarFollicle_oob f u v) =
     (if v < 0 \<or> 1 < v
      then vec_scale ((if 1 < v then v - 1 else - v) / oob_step_size)
             (vec_sub (f u v) (f u (clamp_node oob_step_size (1 - oob_step_size) v)))
      else (0, 0, 0))
   \<and> oob_offset (AvarFollicle_oob f u v) =
       vec_add (oob_u_condition_out (AvarFollicle_oob f u v))
         (oob_v_condition_out (AvarFollicle_oob f u v))
   \<and> oob_v_condition_out (AvarFollicle_oob f 1.2 0.5) = (0, 0, 0)
   \<and> oob_u_condition_out (AvarFollicle_oob f 1.2 0.5) =
       vec_scale 200 (vec_sub (f 1.2 0.5) (f 0.999 0.5))
   \<and> oob_u_condition_out (AvarFollicle_oob f 1.2 (- 0.3)) =
       vec_scale 200 (vec_sub (f 1.2 (- 0.3)) (f 0.999 (- 0.3)))
   \<and> oob_v_condition_out (AvarFollicle_oob f 1.2 (- 0.3)) =
       vec_scale 300 (vec_sub (f 1.2 (- 0.3)) (f 1.2 0.001))"
proof -
  have s: "oob_offset (AvarFollicle_oob f u v) =
       vec_add (oob_u_condition_out (AvarFollicle_oob f u v))
         (oob_v_condition_out (AvarFollicle_oob f u v))"
    by (simp add: AvarFollicle_oob_def Let_def plusMinusAverage3D_def)
  have a: "oob_v_condition_out (AvarFollicle_oob f 1.2 0.5) = (0, 0, 0)"
    unfolding oob_v_gate by simp
  have b: "oob_u_condition_out (AvarFollicle_oob f 1.2 0.5) =
       vec_scale 200 (vec_sub (f 1.2 0.5) (f 0.999 0.5))"
    unfolding oob_u_gate by (simp add: clamp_node_def oob_step_size_def)
  have c: "oob_u_condition_out (AvarFollicle_oob f 1.2 (- 0.3)) =
       vec_scale 200 (vec_sub (f 1.2 (- 0.3)) (f 0.999 (- 0.3)))"
    unfolding oob_u_gate by (simp add: clamp_node_def oob_step_size_def)
  have d: "oob_v_condition_out (AvarFollicle_oob f 1.2 (- 0.3)) =
       vec_scale 300 (vec_sub (f 1.2 (- 0.3)) (f 1.2 0.001))"
    unfolding oob_v_gate by (simp add: clamp_node_def oob_step_size_def)
  from oob_u_gate [of f u v] oob_v_gate [of f u v] s a b c d show ?thesis
    by blast
qed

subsection \<open>Module registry\<close>

text \<open>
  C4. When the name is not registered, \<open>create\<close> raises an exception whose message ends
  with the requested name, and nothing is constructed. When the name is registered and the
  constructor returns, the class has been instantiated once with the given arguments and
  \<open>create\<close> returns the class itself.
\<close>

theorem registry_create:
  "(get_class_def cls_name = None \<longrightarrow>
      create get_class_def init cls_name args instances
        = (Inl (Exception (''Can't find any module named '' @ cls_name)), instances))
   \<and> (get_class_def cls_name = Some cls \<and> init cls args = None \<longrightarrow>
      create get_class_def init cls_name args instances
        = (Inr cls, instances @ [(cls, args)]))"
  by (simp add: create_def)

theorem registry_create_witness:
  "(\<lambda>n. if n = ''IK'' then Some (1 :: nat) else None) ''Wing'' = None
   \<and> create (\<lambda>n. if n = ''IK'' then Some (1 :: nat) else None) (\<lambda>c a. None) ''Wing'' [''jnt''] []
       = (Inl (Exception ''Can't find any module named Wing''), [])
   \<and> (\<lambda>n. if n = ''IK'' then Some (1 :: nat) else None) ''IK'' = Some 1
   \<and> create (\<lambda>n. if n = ''IK'' then Some (1 :: nat) else None) (\<lambda>c a. None) ''IK'' [''jnt''] []
       = (Inr 1, [(1, [''jnt''])])"
  using registry_create [of "\<lambda>n. if n = ''IK'' then Some (1 :: nat) else None" "''Wing''"
      "\<lambda>c a. None" "[''jnt'']" "[]" 1]
    registry_create [of "\<lambda>n. if n = ''IK'' then Some (1 :: nat) else None" "''IK''"
      "\<lambda>c a. None" "[''jnt'']" "[]" 1]
  by simp

subsection \<open>Spine joint count\<close>

text \<open>
  C5. Whenever the chain does not hold exactly 3 joints, \<open>DpSpine.build\<close> raises the
  configuration error, with the number of joints in its message, and the scene is the one
  it was given: nothing of the body has run, whatever the base class and the ribbon would
  create. With exactly 3 joints the guard raises nothing and the result is that of the
  body.
\<close>

theorem dpspine_joint_count:
  "(length chain \<noteq> 3 \<longrightarrow>
      DpSpine_build Module_build Ribbon_build resolve chain sc
        = (Some (Exception (''Expected 3 joints. Got '' @ str_nat (length chain) @ ''.'')), sc))
   \<and> (length chain = 3 \<longrightarrow>
      DpSpine_build Module_build Ribbon_build resolve chain sc
        = DpSpine_build_body Module_build Ribbon_build resolve sc)"
  by (simp add: DpSpine_build_def)

theorem dpspine_joint_count_witness:
  "length [''jnt_a'', ''jnt_b''] \<noteq> 3
   \<and> DpSpine_build (\<lambda>sc. (None, sc @ [''grp_anm'', ''grp_rig''])) (\<lambda>sc. (None, sc @ [''ribbon'']))
        (\<lambda>t. ''anm_'' @ t) [''jnt_a'', ''jnt_b''] [''jnt_a'', ''jnt_b'']
       = (Some (Exception ''Expected 3 joints. Got 2.''), [''jnt_a'', ''jnt_b''])
   \<and> length [''jnt_a'', ''jnt_b'', ''jnt_c''] = 3
   \<and> DpSpine_build (\<lambda>sc. (None, sc @ [''grp_anm'', ''grp_rig''])) (\<lambda>sc. (None, sc @ [''ribbon'']))
        (\<lambda>t. ''anm_'' @ t) [''jnt_a'', ''jnt_b'', ''jnt_c''] []
       = (None, [''grp_anm'', ''grp_rig'', ''anm_HipsA'', ''anm_ChestA'', ''anm_HipsB'',
                 ''anm_ChestB'', ''anm_Middle1'', ''ribbon''])"
  using dpspine_joint_count [of "[''jnt_a'', ''jnt_b'']"
      "\<lambda>sc. (None, sc @ [''grp_anm'', ''grp_rig''])" "\<lambda>sc. (None, sc @ [''ribbon''])"
      "\<lambda>t. ''anm_'' @ t" "[''jnt_a'', ''jnt_b'']"]
    dpspine_joint_count [of "[''jnt_a'', ''jnt_b'', ''jnt_c'']"
      "\<lambda>sc. (None, sc @ [''grp_anm'', ''grp_rig''])" "\<lambda>sc. (None, sc @ [''ribbon''])"
      "\<lambda>t. ''anm_'' @ t" "[]"]
  by (simp add: DpSpine_build_body_def str_nat.simps digit_char_def)

subsection \<open>Rig build guard\<close>

text \<open>
  C6. For a rig whose \<open>is_built()\<close> returns true, \<open>build\<close> returns \<open>False\<close> and does not
  raise; it appends one warning to the host's log and leaves the rig and the live nodes
  as they were, whatever the children's build would do.
\<close>

theorem rig_build_guard:
  assumes "Rig_is_built (live w) (children self) = Inr True"
  shows "Rig_build nom Module_build self w =
          (Inr False, self,
           w\<lparr> warning_log := warning_log w @
                [''Can't build <rig '' @ name self @ ''/> because it's already built!''] \<rparr>)
    \<and> live (snd (snd (Rig_build nom Module_build self w))) = live w"
  using assms by (simp add: Rig_build_def Rig_str_def)

theorem rig_build_guard_witness:
  "Rig_is_built (live example_world) (children example_rig) = Inr True
   \<and> Rig_build example_nomenclature example_Module_build example_rig example_world =
       (Inr False, example_rig,
        \<lparr> live = [''arm_jnt'', ''arm_rig''],
          warning_log = [''Can't build <rig untitled/> because it's already built!''] \<rparr>)"
proof -
  have built: "Rig_is_built (live example_world) (children example_rig) = Inr True"
    by (simp add: example_world_def example_rig_def example_arm_def Module_is_built_def)
  from rig_build_guard [OF built, of example_nomenclature example_Module_build] built
  show ?thesis
    by (simp add: example_world_def example_rig_def)
qed

subsection \<open>Sequence protocol of the rig\<close>

text \<open>
  C9, at a failing input: \<open>rig[0]\<close> on the example rig. The list holds the arm module at
  index 0, and \<open>Rig.__getitem__\<close> returns \<open>None\<close>. In general it returns \<open>None\<close> at
  every valid index and raises \<open>IndexError\<close> at the others. The length is the number of
  children, and \<open>insert\<close> at an index from 0 to the length puts the module there with its
  parent reference set to the rig.
\<close>

theorem rig_getitem_returns_none:
  "list_getitem (children example_rig) 0 = Inr (Some example_arm)
   \<and> Rig_getitem example_rig 0 = Inr None
   \<and> Rig_getitem self i =
       (if - int (length (children self)) \<le> i \<and> i < int (length (children self))
        then Inr None else Inl IndexError)
   \<and> Rig_len self = length (children self)
   \<and> Rig_insert example_rig 1 (Some example_leg) =
       (None, example_rig\<lparr> children :=
          [Some example_arm, Some (example_leg\<lparr> module_parent := Some 1 \<rparr>), Some example_leg] \<rparr>)"
proof -
  have a: "list_getitem (children example_rig) 0 = Inr (Some example_arm)"
    by (simp add: list_getitem_def example_rig_def)
  have b: "Rig_getitem example_rig 0 = Inr None"
    by (simp add: Rig_getitem_def list_getitem_def example_rig_def)
  have c: "Rig_getitem self i =
       (if - int (length (children self)) \<le> i \<and> i < int (length (children self))
        then Inr None else Inl IndexError)"
    by (auto simp: Rig_getitem_def list_getitem_def Let_def)
  have d: "Rig_len self = length (children self)"
    by (simp add: Rig_len_def)
  have e: "Rig_insert example_rig 1 (Some example_leg) =
       (None, example_rig\<lparr> children :=
          [Some example_arm, Some (example_leg\<lparr> module_parent := Some 1 \<rparr>), Some example_leg] \<rparr>)"
    by (simp add: Rig_insert_def list_insert_def example_rig_def)
  from a b c d e show ?thesis by blast
qed

subsection \<open>Unbuild of an avar without a rig group\<close>

text \<open>
  C10. When the handle \<open>grp_rig\<close> is \<open>None\<close> or names no live node, \<open>hold_avars\<close>
  returns after one warning: the scene (so no backup node, and every connection where it
  was) and \<open>avar_network\<close> are unchanged. \<open>unbuild\<close> then completes: it returns a module
  whose nine avar attribute handles are \<open>None\<close>, whose \<open>avar_network\<close> is the one it had,
  and whose group handle and scene are those the base class's unbuild leaves.
\<close>

theorem unbuild_without_grp_rig:
  assumes "case grp_rig a of None \<Rightarrow> True | Some g \<Rightarrow> g \<notin> set (nodes (scene a))"
  shows "hold_avars anim backup_name a =
          Inr (a\<lparr> warnings := warnings a @
                 [''Can't hold avars, invalid grp_rig in '' @ module_str a @ ''!''] \<rparr>)
    \<and> (\<exists>a'. AbstractAvar_unbuild Module_unbuild anim backup_name a = Inr a'
          \<and> attr_ud a' = None \<and> attr_lr a' = None \<and> attr_fb a' = None
          \<and> attr_yw a' = None \<and> attr_pt a' = None \<and> attr_rl a' = None
          \<and> attr_sx a' = None \<and> attr_sy a' = None \<and> attr_sz a' = None
          \<and> avar_network a' = avar_network a
          \<and> warnings a' = warnings a @
                 [''Can't hold avars, invalid grp_rig in '' @ module_str a @ ''!'']
          \<and> (grp_rig a', scene a') = Module_unbuild (grp_rig a) (scene a))"
proof -
  have h: "hold_avars anim backup_name a =
          Inr (a\<lparr> warnings := warnings a @
                 [''Can't hold avars, invalid grp_rig in '' @ module_str a @ ''!''] \<rparr>)"
    using assms by (simp add: hold_avars_def split: option.splits)
  obtain g sc where m: "Module_unbuild (grp_rig a) (scene a) = (g, sc)"
    by (cases "Module_unbuild (grp_rig a) (scene a)")
  have u: "AbstractAvar_unbuild Module_unbuild anim backup_name a =
      Inr ((init_avars (a\<lparr> warnings := warnings a @
                 [''Can't hold avars, invalid grp_rig in '' @ module_str a @ ''!''] \<rparr>))
            \<lparr> grp_rig := g, scene := sc \<rparr>)"
    by (simp add: AbstractAvar_unbuild_def h init_avars_def m)
  show ?thesis
    unfolding h u by (simp add: init_avars_def m)
qed

theorem unbuild_without_grp_rig_witness:
  "(case grp_rig example_avar of None \<Rightarrow> True
     | Some g \<Rightarrow> g \<notin> set (nodes (scene example_avar)))
   \<and> hold_avars (\<lambda>sc p. True) ''lip_avarBackup'' example_avar =
       Inr (example_avar\<lparr> warnings :=
              [''Can't hold avars, invalid grp_rig in <AvarFollicle lip>!''] \<rparr>)
   \<and> (\<exists>a'. AbstractAvar_unbuild example_Module_unbuild (\<lambda>sc p. True) ''lip_avarBackup''
              example_avar = Inr a'
          \<and> attr_ud a' = None \<and> attr_sz a' = None \<and> avar_network a' = None
          \<and> nodes (scene a') = [''lip_jnt'', ''curve1''])"
proof -
  have pre: "case grp_rig example_avar of None \<Rightarrow> True
     | Some g \<Rightarrow> g \<notin> set (nodes (scene example_avar))"
    by (simp add: example_avar_def)
  from unbuild_without_grp_rig [OF pre, of "\<lambda>sc p. True" "''lip_avarBackup''"
      example_Module_unbuild]
  obtain a' where r:
    "hold_avars (\<lambda>sc p. True) ''lip_avarBackup'' example_avar =
       Inr (example_avar\<lparr> warnings := warnings example_avar @
              [''Can't hold avars, invalid grp_rig in '' @ module_str example_avar @ ''!''] \<rparr>)"
    "AbstractAvar_unbuild example_Module_unbuild (\<lambda>sc p. True) ''lip_avarBackup''
       example_avar = Inr a'"
    "attr_ud a' = None" "attr_sz a' = None"
    "avar_network a' = avar_network example_avar"
    "(grp_rig a', scene a') = example_Module_unbuild (grp_rig example_avar) (scene example_avar)"
    by blast
  from r(6) have n: "nodes (scene a') = [''lip_jnt'', ''curve1'']"
    by (simp add: example_Module_unbuild_def example_avar_def)
  from r(5) have v: "avar_network a' = None"
    by (simp add: example_avar_def)
  from r(1) have w: "hold_avars (\<lambda>sc p. True) ''lip_avarBackup'' example_avar =
       Inr (example_avar\<lparr> warnings :=
              [''Can't hold avars, invalid grp_rig in <AvarFollicle lip>!''] \<rparr>)"
    by (simp add: example_avar_def)
  from pre w r(2) r(3) r(4) v n show ?thesis by blast
qed

end
